theory Spec2Isabelle
  imports Complex_Main
begin

section \<open>Values of the module\<close>

text \<open>
  The module \<^verbatim>\<open>datacube/testutils/io.py\<close> is a thin layer over a raster I/O library.
  Its own code is embedded function by function; what it calls is modelled beside it.
  Exceptions are values of \<open>py_error\<close>, a raising function returns \<open>Inl\<close>.
\<close>

datatype py_error =
    ValueError string
  | IOError string
  | KeyError string
  | IndexError
  | OverflowError
  | AttributeError
  | TypeError
  | BackendError

text \<open>\<^verbatim>\<open>Affine(a, b, c, d, e, f)\<close>: the six coefficients, never computed with here.\<close>

datatype affine = Affine real real real real real real

text \<open>The attributes of a rasterio CRS object that the module reads.\<close>

record rio_crs =
  is_epsg_code :: bool
  to_epsg :: "int option"
  wkt :: string

text \<open>
  Modelled from the spec: \<^verbatim>\<open>datacube.utils.geometry.CRS\<close> is not among the sources. A
  datacube CRS is built from a string (\<^verbatim>\<open>epsg:<code>\<close> or well-known text).
\<close>

datatype dc_crs = CRS string

text \<open>Modelled from the spec: \<^verbatim>\<open>str(crs)\<close> of a datacube CRS is the string it was built from.\<close>

fun crs_str :: "dc_crs \<Rightarrow> string" where
  "crs_str (CRS s) = s"

text \<open>
  Modelled from the spec: \<^verbatim>\<open>datacube.utils.geometry.GeoBox\<close> is not among the sources. A
  grid descriptor is (width, height, affine transform, CRS), built by
  \<^verbatim>\<open>GeoBox(width, height, transform, crs)\<close>, with \<open>shape = (height, width)\<close>.
\<close>

record geobox =
  gb_width :: int
  gb_height :: int
  gb_transform :: affine
  gb_crs :: dc_crs

text \<open>Modelled from the spec: the constructor \<^verbatim>\<open>GeoBox(width, height, affine, crs)\<close>.\<close>

definition GeoBox :: "int \<Rightarrow> int \<Rightarrow> affine \<Rightarrow> dc_crs \<Rightarrow> geobox" where
  "GeoBox w h t c = \<lparr>gb_width = w, gb_height = h, gb_transform = t, gb_crs = c\<rparr>"

text \<open>Modelled from the spec: \<^verbatim>\<open>gbox.shape\<close> is \<open>(height, width)\<close>.\<close>

definition gb_shape :: "geobox \<Rightarrow> int list" where
  "gb_shape g = [gb_height g, gb_width g]"

text \<open>
  A numpy array: dtype name, shape, and the elements in row-major order. The element
  type \<open>'v\<close> is left open; how numpy stores a value in a dtype is the cast \<open>np_cast\<close>
  of the libraries below.
\<close>

record 'v ndarray =
  arr_dtype :: string
  arr_shape :: "nat list"
  arr_elems :: "'v list"

definition ndim :: "'v ndarray \<Rightarrow> nat" where
  "ndim a = length (arr_shape a)"

text \<open>The values found in the keyword and metadata dictionaries, and the dictionaries.\<close>

datatype 'v pyval =
    PNone
  | PBool bool
  | PInt int
  | PStr string
  | PScalar 'v
  | PInts "int list"
  | PAffine affine
  | PCrs rio_crs
  | PGeoBox geobox
  | PPath string

type_synonym 'v pydict = "string \<rightharpoonup> 'v pyval"

section \<open>Metadata normalizer\<close>

text \<open>\<^verbatim>\<open>'{}'.format(x)\<close> for an integer or \<^verbatim>\<open>None\<close>: decimal digits, a sign when negative.\<close>

fun digits :: "nat \<Rightarrow> string" where
  "digits n = (if n < 10 then [''0123456789'' ! n]
               else digits (n div 10) @ [''0123456789'' ! (n mod 10)])"

declare digits.simps [simp del]

definition py_format :: "int option \<Rightarrow> string" where
  "py_format x = (case x of None \<Rightarrow> ''None''
                  | Some i \<Rightarrow> if i < 0 then CHR ''-'' # digits (nat (- i)) else digits (nat i))"

definition dc_crs_from_rio :: "rio_crs \<Rightarrow> dc_crs" where
  "dc_crs_from_rio crs =
     (if is_epsg_code crs then CRS (''epsg:'' @ py_format (to_epsg crs))
      else CRS (wkt crs))"

text \<open>
  \<^verbatim>\<open>rio_geobox(meta)\<close>. A missing \<^verbatim>\<open>height\<close> or \<^verbatim>\<open>width\<close> is a \<^verbatim>\<open>KeyError\<close>, a \<^verbatim>\<open>crs\<close>
  value without the CRS attributes an \<^verbatim>\<open>AttributeError\<close>; a grid descriptor is built
  from integers and an affine transform only.
\<close>

definition rio_geobox :: "'v pydict \<Rightarrow> py_error + geobox option" where
  "rio_geobox meta =
     (if meta ''crs'' = None \<or> meta ''transform'' = None then Inr None
      else (case meta ''height'' of
              None \<Rightarrow> Inl (KeyError ''height'')
            | Some hv \<Rightarrow>
               (case meta ''width'' of
                  None \<Rightarrow> Inl (KeyError ''width'')
                | Some wv \<Rightarrow>
                   (case meta ''crs'' of
                      Some (PCrs c) \<Rightarrow>
                        (let crs = dc_crs_from_rio c in
                         case (wv, hv, meta ''transform'') of
                           (PInt w, PInt h, Some (PAffine transform)) \<Rightarrow>
                             Inr (Some (GeoBox w h transform crs))
                         | _ \<Rightarrow> Inl TypeError)
                    | _ \<Rightarrow> Inl AttributeError))))"

definition gbox_val :: "geobox option \<Rightarrow> 'v pyval" where
  "gbox_val g = (case g of None \<Rightarrow> PNone | Some b \<Rightarrow> PGeoBox b)"

section \<open>The raster I/O backend\<close>

text \<open>
  Modelled from the spec: the raster library (rasterio) is an external collaborator
  behind the capability interface \<open>open\<close>, \<open>read\<close>, \<open>metadata\<close>, \<open>reproject\<close>.
  A file is a data set: its metadata, the options it was created with, and its bands,
  each a row-major list of pixels. The file system maps a path to the file there.
\<close>

record 'v dataset =
  ds_driver :: string
  ds_dtype :: string
  ds_nodata :: "'v option"
  ds_width :: int
  ds_height :: int
  ds_crs :: "rio_crs option"
  ds_transform :: affine
  ds_opts :: "'v pydict"
  ds_bands :: "'v list list"

type_synonym 'v filesystem = "string \<rightharpoonup> 'v dataset"

text \<open>
  Modelled from the spec: the libraries behind the capability interface.
  What the libraries decide by geometry, by the number format or by their own option
  handling stays a parameter: parsing a CRS string, a read with options, the warp of a
  reprojection, and numpy's cast of a value to a dtype. The warp is given the source, its
  band, the destination shape, nodata, transform and CRS, the options and a destination
  pixel (row-major index); it answers the resampled value, or \<open>None\<close> for a pixel outside
  the source's footprint. The cast answers the value as the dtype stores it (wrapped,
  where numpy wraps), or the error numpy raises when it refuses the value.
\<close>

record 'v backend =
  crs_from_input :: "string \<Rightarrow> rio_crs option"
  read_with :: "'v pydict \<Rightarrow> 'v ndarray \<Rightarrow> py_error + 'v ndarray"
  warp :: "'v dataset \<Rightarrow> nat \<Rightarrow> nat list \<Rightarrow> 'v \<Rightarrow> affine \<Rightarrow> string \<Rightarrow> 'v pydict \<Rightarrow> nat \<Rightarrow> 'v option"
  np_cast :: "string \<Rightarrow> 'v \<Rightarrow> py_error + 'v"

text \<open>
  \<^verbatim>\<open>np.full(shape, fill_value, dtype)\<close>: numpy refuses a negative dimension, then casts
  the fill value to the dtype and stores the cast value in every element.
\<close>

definition np_full :: "'v backend \<Rightarrow> int list \<Rightarrow> 'v \<Rightarrow> string \<Rightarrow> py_error + 'v ndarray" where
  "np_full B shp fill_value dt =
     (if list_ex (\<lambda>d. d < 0) shp then Inl (ValueError ''negative dimensions are not allowed'')
      else (case np_cast B dt fill_value of
              Inl e \<Rightarrow> Inl e
            | Inr v \<Rightarrow> Inr \<lparr>arr_dtype = dt, arr_shape = map nat shp,
                            arr_elems = replicate (prod_list (map nat shp)) v\<rparr>))"

text \<open>Modelled from the spec: \<^verbatim>\<open>src.count\<close>, the number of bands of the data set.\<close>

definition ds_count :: "'v dataset \<Rightarrow> int" where
  "ds_count ds = int (length (ds_bands ds))"

text \<open>
  Modelled from the spec: \<^verbatim>\<open>src.meta\<close>, the keys the library reports for an open data set. The record
  has \<^verbatim>\<open>crs\<close> when the file declares one (the spec: the derived grid descriptor "may
  be None if crs/transform missing").
\<close>

definition rio_meta :: "'v dataset \<Rightarrow> 'v pydict" where
  "rio_meta ds =
     (let meta = [''driver'' \<mapsto> PStr (ds_driver ds),
                  ''dtype'' \<mapsto> PStr (ds_dtype ds),
                  ''nodata'' \<mapsto> (case ds_nodata ds of None \<Rightarrow> PNone | Some n \<Rightarrow> PScalar n),
                  ''width'' \<mapsto> PInt (ds_width ds),
                  ''height'' \<mapsto> PInt (ds_height ds),
                  ''count'' \<mapsto> PInt (ds_count ds),
                  ''transform'' \<mapsto> PAffine (ds_transform ds)]
      in case ds_crs ds of None \<Rightarrow> meta | Some c \<Rightarrow> meta(''crs'' \<mapsto> PCrs c))"

text \<open>
  Modelled from the spec: how the library reads the creation options. An integer, a
  string, a nodata value (absent or \<^verbatim>\<open>None\<close> for none), a CRS (a CRS object or a string
  it parses; absent or \<^verbatim>\<open>None\<close> for none), a transform (the identity when absent).
\<close>

fun as_int :: "'v pyval option \<Rightarrow> int option" where
  "as_int (Some (PInt i)) = Some i"
| "as_int _ = None"

fun as_str :: "'v pyval option \<Rightarrow> string option" where
  "as_str (Some (PStr s)) = Some s"
| "as_str _ = None"

fun as_nodata :: "'v pyval option \<Rightarrow> 'v option option" where
  "as_nodata None = Some None"
| "as_nodata (Some PNone) = Some None"
| "as_nodata (Some (PScalar v)) = Some (Some v)"
| "as_nodata _ = None"

fun as_crs :: "'v backend \<Rightarrow> 'v pyval option \<Rightarrow> rio_crs option option" where
  "as_crs B None = Some None"
| "as_crs B (Some PNone) = Some None"
| "as_crs B (Some (PCrs c)) = Some (Some c)"
| "as_crs B (Some (PStr s)) = (case crs_from_input B s of None \<Rightarrow> None | Some c \<Rightarrow> Some (Some c))"
| "as_crs B _ = None"

fun as_transform :: "'v pyval option \<Rightarrow> affine option" where
  "as_transform None = Some (Affine 1 0 0 0 1 0)"
| "as_transform (Some (PAffine a)) = Some a"
| "as_transform _ = None"

text \<open>
  Modelled from the spec: \<^verbatim>\<open>rasterio.open(path, 'w', driver=..., **opts)\<close> is a new data set of \<open>count\<close> bands of
  \<open>height * width\<close> zero pixels; width, height, count and dtype are required.
\<close>

definition rio_open_w :: "'v::zero backend \<Rightarrow> string \<Rightarrow> 'v pydict \<Rightarrow> py_error + 'v dataset" where
  "rio_open_w B driver opts =
     (case (as_int (opts ''width''), as_int (opts ''height''), as_int (opts ''count''),
            as_str (opts ''dtype''), as_nodata (opts ''nodata''), as_crs B (opts ''crs''),
            as_transform (opts ''transform'')) of
        (Some w, Some h, Some n, Some d, Some nd, Some c, Some t) \<Rightarrow>
          if w \<le> 0 \<or> h \<le> 0 \<or> n \<le> 0 then Inl BackendError
          else Inr \<lparr>ds_driver = driver, ds_dtype = d, ds_nodata = nd, ds_width = w, ds_height = h,
                    ds_crs = c, ds_transform = t, ds_opts = opts,
                    ds_bands = replicate (nat n) (replicate (nat h * nat w) 0)\<rparr>
      | _ \<Rightarrow> Inl BackendError)"

text \<open>Modelled from the spec: the band argument of a write, one index or a tuple of indexes.\<close>

datatype indexes = Index nat | Indexes "nat list"

text \<open>Modelled from the spec: storing planes at band indexes, and cutting a 3-D array into planes.\<close>

definition put_bands :: "'v list list \<Rightarrow> nat list \<Rightarrow> 'v list list \<Rightarrow> 'v list list" where
  "put_bands bands ks planes = fold (\<lambda>(k, p) bs. bs[k - 1 := p]) (zip ks planes) bands"

definition planes_of :: "nat \<Rightarrow> nat \<Rightarrow> 'v list \<Rightarrow> 'v list list" where
  "planes_of n m xs = map (\<lambda>i. take m (drop (i * m) xs)) [0..<n]"

text \<open>
  Modelled from the spec: \<^verbatim>\<open>dst.write(arr, indexes)\<close> takes one band index with a
  2-D array, or a tuple of indexes with a 3-D array holding one plane for each; dtype and
  shape must be the data set's.
\<close>

definition rio_write :: "'v dataset \<Rightarrow> 'v ndarray \<Rightarrow> indexes \<Rightarrow> py_error + 'v dataset" where
  "rio_write ds arr ix =
     (let h = nat (ds_height ds); w = nat (ds_width ds); n = length (ds_bands ds) in
      if arr_dtype arr \<noteq> ds_dtype ds \<or> length (arr_elems arr) \<noteq> prod_list (arr_shape arr)
      then Inl BackendError
      else case ix of
        Index k \<Rightarrow>
          if arr_shape arr = [h, w] \<and> 1 \<le> k \<and> k \<le> n
          then Inr (ds\<lparr>ds_bands := (ds_bands ds)[k - 1 := arr_elems arr]\<rparr>)
          else Inl BackendError
      | Indexes ks \<Rightarrow>
          if arr_shape arr = [length ks, h, w] \<and> list_all (\<lambda>k. 1 \<le> k \<and> k \<le> n) ks
          then Inr (ds\<lparr>ds_bands := put_bands (ds_bands ds) ks
                                     (planes_of (length ks) (h * w) (arr_elems arr))\<rparr>)
          else Inl BackendError)"

text \<open>
  Modelled from the spec: \<^verbatim>\<open>rasterio.open(path, 'r')\<close> gives the file at the path, an
  error when there is none.
\<close>

definition rio_open_r :: "'v filesystem \<Rightarrow> string \<Rightarrow> py_error + 'v dataset" where
  "rio_open_r fs fname = (case fs fname of None \<Rightarrow> Inl BackendError | Some ds \<Rightarrow> Inr ds)"

text \<open>
  Modelled from the spec: \<^verbatim>\<open>src.read(k, **kw)\<close> is one band as a 2-D array, \<^verbatim>\<open>src.read(**kw)\<close> all bands
  stacked as a 3-D array; with options the library post-processes that array.
\<close>

definition rio_read :: "'v backend \<Rightarrow> 'v dataset \<Rightarrow> nat option \<Rightarrow> 'v pydict \<Rightarrow> py_error + 'v ndarray" where
  "rio_read B ds ix kw =
     (let h = nat (ds_height ds); w = nat (ds_width ds); n = length (ds_bands ds) in
      case (case ix of
              Some k \<Rightarrow>
                if 1 \<le> k \<and> k \<le> n
                then Inr \<lparr>arr_dtype = ds_dtype ds, arr_shape = [h, w],
                          arr_elems = ds_bands ds ! (k - 1)\<rparr>
                else Inl BackendError
            | None \<Rightarrow>
                Inr \<lparr>arr_dtype = ds_dtype ds, arr_shape = [n, h, w],
                     arr_elems = concat (ds_bands ds)\<rparr>) of
        Inl e \<Rightarrow> Inl e
      | Inr a \<Rightarrow> if dom kw = {} then Inr a else read_with B kw a)"

text \<open>
  Modelled from the spec:
  \<^verbatim>\<open>reproject(band, destination, dst_nodata=, dst_transform=, dst_crs=, **kw)\<close> writes
  the resampled value into every destination pixel of the source's footprint and
  leaves the other pixels as they were: it does not itself cover the whole canvas. It
  refuses a \<^verbatim>\<open>dst_nodata\<close> outside the range of the destination's dtype, that is, one
  the cast to that dtype does not leave as it is.
\<close>

definition rio_reproject ::
  "'v backend \<Rightarrow> 'v dataset \<Rightarrow> nat \<Rightarrow> 'v ndarray \<Rightarrow> 'v \<Rightarrow> affine \<Rightarrow> string \<Rightarrow> 'v pydict
     \<Rightarrow> py_error + 'v ndarray" where
  "rio_reproject B src k destination dst_nodata dst_transform dst_crs kw =
     (if k < 1 \<or> length (ds_bands src) < k then Inl BackendError
      else if np_cast B (arr_dtype destination) dst_nodata \<noteq> Inr dst_nodata
      then Inl (ValueError ''dst_nodata must be in valid range for destination dtype'')
      else Inr (destination\<lparr>arr_elems :=
             map (\<lambda>i. case warp B src k (arr_shape destination) dst_nodata dst_transform dst_crs kw i of
                        None \<Rightarrow> arr_elems destination ! i
                      | Some v \<Rightarrow> v)
                 [0..<length (arr_elems destination)]\<rparr>))"

section \<open>Writer\<close>

text \<open>
  The option dictionary of \<^verbatim>\<open>write_gtiff\<close>: the defaults, then tiling when a block
  size is given, then nodata when given, then the caller's extra options over all.
\<close>

definition rio_opts ::
  "nat \<Rightarrow> nat \<Rightarrow> nat \<Rightarrow> string \<Rightarrow> string \<Rightarrow> affine \<Rightarrow> int option \<Rightarrow> 'v option \<Rightarrow> 'v pydict
     \<Rightarrow> 'v pydict" where
  "rio_opts w h nbands dtype_name crs A blocksize nodata extra_rio_opts =
     (let opts = [''width'' \<mapsto> PInt (int w),
                  ''height'' \<mapsto> PInt (int h),
                  ''count'' \<mapsto> PInt (int nbands),
                  ''dtype'' \<mapsto> PStr dtype_name,
                  ''crs'' \<mapsto> PStr crs,
                  ''transform'' \<mapsto> PAffine A,
                  ''predictor'' \<mapsto> PInt 2,
                  ''compress'' \<mapsto> PStr ''DEFLATE''];
          opts = (case blocksize of
                    None \<Rightarrow> opts
                  | Some b \<Rightarrow> opts(''tiled'' \<mapsto> PBool True,
                                    ''blockxsize'' \<mapsto> PInt (min b (int w)),
                                    ''blockysize'' \<mapsto> PInt (min b (int h))));
          opts = (case nodata of None \<Rightarrow> opts | Some n \<Rightarrow> opts(''nodata'' \<mapsto> PScalar n))
      in opts ++ extra_rio_opts)"

text \<open>
  \<^verbatim>\<open>write_gtiff\<close> returns its result and the file system it leaves. The dimension
  check comes first, then the existence check (which unlinks under \<open>overwrite\<close>), then
  the library creates the file, writes the bands and reports the metadata. A \<^verbatim>\<open>driver\<close>
  among the extra options collides with the keyword the call already passes.
\<close>

definition write_gtiff ::
  "'v::zero backend \<Rightarrow> 'v filesystem \<Rightarrow> string \<Rightarrow> 'v ndarray \<Rightarrow> string \<Rightarrow> real \<times> real \<Rightarrow> real \<times> real
     \<Rightarrow> 'v option \<Rightarrow> bool \<Rightarrow> int option \<Rightarrow> 'v pydict \<Rightarrow> (py_error + 'v pydict) \<times> 'v filesystem" where
  "write_gtiff B fs fname pix crs resolution offset nodata overwrite blocksize extra_rio_opts =
     (case (if ndim pix = 2
            then Inr (arr_shape pix ! 0, arr_shape pix ! 1, 1, Index 1)
            else if ndim pix = 3
            then Inr (arr_shape pix ! 1, arr_shape pix ! 2, arr_shape pix ! 0,
                      Indexes [1..<arr_shape pix ! 0 + 1])
            else Inl (ValueError ''Need 2d or 3d ndarray on input'')) of
        Inl e \<Rightarrow> (Inl e, fs)
      | Inr (h, w, nbands, band) \<Rightarrow>
          (if fs fname \<noteq> None \<and> \<not> overwrite then (Inl (IOError ''File exists''), fs)
           else
            (let fs1 = (if fs fname \<noteq> None then fs(fname := None) else fs);
                 A = Affine (fst resolution) 0 (fst offset) 0 (snd resolution) (snd offset);
                 opts = rio_opts w h nbands (arr_dtype pix) crs A blocksize nodata extra_rio_opts
             in if opts ''driver'' \<noteq> None then (Inl TypeError, fs1)
                else (case rio_open_w B ''GTiff'' opts of
                        Inl e \<Rightarrow> (Inl e, fs1)
                      | Inr dst0 \<Rightarrow>
                         (case rio_write dst0 pix band of
                            Inl e \<Rightarrow> (Inl e, fs1(fname \<mapsto> dst0))
                          | Inr dst \<Rightarrow>
                             (let fs2 = fs1(fname \<mapsto> dst); meta = rio_meta dst in
                              case rio_geobox meta of
                                Inl e \<Rightarrow> (Inl e, fs2)
                              | Inr g \<Rightarrow>
                                  (Inr (meta(''gbox'' \<mapsto> gbox_val g, ''path'' \<mapsto> PPath fname)),
                                   fs2)))))))"

section \<open>Readers\<close>

text \<open>
  \<^verbatim>\<open>rio_slurp_reproject(fname, gbox, dtype=None, dst_nodata=None, **kw)\<close>. The default
  dtype is \<^verbatim>\<open>src.dtypes[0]\<close>, the first entry of a tuple with one entry for each band.
\<close>

definition rio_slurp_reproject ::
  "'v::zero backend \<Rightarrow> 'v filesystem \<Rightarrow> string \<Rightarrow> geobox \<Rightarrow> string option \<Rightarrow> 'v option \<Rightarrow> 'v pydict
     \<Rightarrow> py_error + 'v ndarray \<times> 'v pydict" where
  "rio_slurp_reproject B fs fname gbox dtype dst_nodata kw =
     (case rio_open_r fs fname of
        Inl e \<Rightarrow> Inl e
      | Inr src \<Rightarrow>
         (if dtype = None \<and> ds_bands src = [] then Inl IndexError
          else
           (let dtype1 = (case dtype of None \<Rightarrow> ds_dtype src | Some d \<Rightarrow> d);
                dst_nodata1 = (case dst_nodata of None \<Rightarrow> ds_nodata src | Some n \<Rightarrow> Some n);
                dst_nodata2 = (case dst_nodata1 of None \<Rightarrow> 0 | Some n \<Rightarrow> n)
            in case np_full B (gb_shape gbox) dst_nodata2 dtype1 of
                 Inl e \<Rightarrow> Inl e
               | Inr pix0 \<Rightarrow>
                  (case rio_reproject B src 1 pix0 dst_nodata2 (gb_transform gbox)
                          (crs_str (gb_crs gbox)) kw of
                     Inl e \<Rightarrow> Inl e
                   | Inr pix \<Rightarrow>
                      (let meta = rio_meta src in
                       case rio_geobox meta of
                         Inl e \<Rightarrow> Inl e
                       | Inr sg \<Rightarrow>
                           Inr (pix, meta(''src_gbox'' \<mapsto> gbox_val sg,
                                          ''path'' \<mapsto> PPath fname,
                                          ''gbox'' \<mapsto> PGeoBox gbox)))))))"

text \<open>\<^verbatim>\<open>rio_slurp_read(fname, out_shape=None, **kw)\<close>.\<close>

definition rio_slurp_read ::
  "'v backend \<Rightarrow> 'v filesystem \<Rightarrow> string \<Rightarrow> int list option \<Rightarrow> 'v pydict
     \<Rightarrow> py_error + 'v ndarray \<times> 'v pydict" where
  "rio_slurp_read B fs fname out_shape kw =
     (let kw1 = (case out_shape of None \<Rightarrow> kw | Some s \<Rightarrow> kw(''out_shape'' \<mapsto> PInts s)) in
      case rio_open_r fs fname of
        Inl e \<Rightarrow> Inl e
      | Inr src \<Rightarrow>
         (case (if ds_count src = 1 then rio_read B src (Some 1) kw1
                else rio_read B src None kw1) of
            Inl e \<Rightarrow> Inl e
          | Inr data \<Rightarrow>
             (let meta = rio_meta src in
              case rio_geobox meta of
                Inl e \<Rightarrow> Inl e
              | Inr g \<Rightarrow> Inr (data, meta(''gbox'' \<mapsto> gbox_val g, ''path'' \<mapsto> PPath fname)))))"

section \<open>Reading through the default driver\<close>

text \<open>
  Modelled from the spec: \<^verbatim>\<open>RasterFileDataSource\<close>, \<^verbatim>\<open>rdr_geobox\<close> and
  \<^verbatim>\<open>reproject_and_fuse\<close> of \<^verbatim>\<open>datacube.storage\<close> are not among the sources. A data source
  is a path, a band number and a fallback nodata; its opened reader reports the file's
  dtype and the file's declared nodata, or the fallback when the file declares none
  (the comment in \<^verbatim>\<open>dc_read\<close>: the reader's nodata is unset only "if fallback_nodata was
  None and file had none set"). The reader's grid descriptor is the normalizer's, and
  \<^verbatim>\<open>reproject_and_fuse\<close>, called on the one source, reprojects its band onto the
  destination with the given resampling.
\<close>

record 'v datasource =
  src_filename :: string
  src_bandnumber :: nat
  src_nodata :: "'v option"

text \<open>Modelled from the spec: \<^verbatim>\<open>RasterFileDataSource(path, band, nodata=fallback_nodata)\<close>.\<close>

definition RasterFileDataSource :: "string \<Rightarrow> nat \<Rightarrow> 'v option \<Rightarrow> 'v datasource" where
  "RasterFileDataSource path band nodata =
     \<lparr>src_filename = path, src_bandnumber = band, src_nodata = nodata\<rparr>"

text \<open>Modelled from the spec: the reader that \<^verbatim>\<open>source.open()\<close> yields.\<close>

record 'v reader =
  rdr_dtype :: string
  rdr_nodata :: "'v option"
  rdr_band :: nat
  rdr_ds :: "'v dataset"

text \<open>
  Modelled from the spec: \<^verbatim>\<open>source.open()\<close>. The reader's nodata is the file's declared
  nodata, and the source's fallback when the file declares none.
\<close>

definition source_open :: "'v filesystem \<Rightarrow> 'v datasource \<Rightarrow> py_error + 'v reader" where
  "source_open fs source =
     (case rio_open_r fs (src_filename source) of
        Inl e \<Rightarrow> Inl e
      | Inr ds \<Rightarrow>
         (if src_bandnumber source < 1 \<or> length (ds_bands ds) < src_bandnumber source
          then Inl BackendError
          else Inr \<lparr>rdr_dtype = ds_dtype ds,
                    rdr_nodata = (case ds_nodata ds of None \<Rightarrow> src_nodata source | Some n \<Rightarrow> Some n),
                    rdr_band = src_bandnumber source,
                    rdr_ds = ds\<rparr>))"

text \<open>
  Modelled from the spec: \<^verbatim>\<open>rdr_geobox(rdr)\<close>, the grid descriptor of the opened file,
  derived by the normalizer as everywhere else.
\<close>

definition rdr_geobox :: "'v reader \<Rightarrow> py_error + geobox" where
  "rdr_geobox rdr =
     (case rio_geobox (rio_meta (rdr_ds rdr)) of
        Inl e \<Rightarrow> Inl e
      | Inr None \<Rightarrow> Inl BackendError
      | Inr (Some g) \<Rightarrow> Inr g)"

text \<open>
  Modelled from the spec: \<^verbatim>\<open>reproject_and_fuse([source], destination, gbox, nodata,
  resampling=...)\<close> with its one source: the band of the source is reprojected onto the
  destination.
\<close>

definition reproject_and_fuse ::
  "'v backend \<Rightarrow> 'v filesystem \<Rightarrow> 'v datasource \<Rightarrow> 'v ndarray \<Rightarrow> geobox \<Rightarrow> 'v \<Rightarrow> string
     \<Rightarrow> py_error + 'v ndarray" where
  "reproject_and_fuse B fs source destination dst_gbox dst_nodata resampling =
     (case source_open fs source of
        Inl e \<Rightarrow> Inl e
      | Inr rdr \<Rightarrow>
          rio_reproject B (rdr_ds rdr) (rdr_band rdr) destination dst_nodata
            (gb_transform dst_gbox) (crs_str (gb_crs dst_gbox))
            [''resampling'' \<mapsto> PStr resampling])"

text \<open>
  \<^verbatim>\<open>dc_read(path, band=1, gbox=None, resampling='nearest', dtype=None, dst_nodata=None,
  fallback_nodata=None)\<close>.
\<close>

definition dc_read ::
  "'v::zero backend \<Rightarrow> 'v filesystem \<Rightarrow> string \<Rightarrow> nat \<Rightarrow> geobox option \<Rightarrow> string \<Rightarrow> string option
     \<Rightarrow> 'v option \<Rightarrow> 'v option \<Rightarrow> py_error + 'v ndarray" where
  "dc_read B fs path band gbox resampling dtype dst_nodata fallback_nodata =
     (let source = RasterFileDataSource path band fallback_nodata in
      case source_open fs source of
        Inl e \<Rightarrow> Inl e
      | Inr rdr \<Rightarrow>
         (let dtype1 = (case dtype of None \<Rightarrow> rdr_dtype rdr | Some d \<Rightarrow> d) in
          case (case gbox of None \<Rightarrow> rdr_geobox rdr | Some g \<Rightarrow> Inr g) of
            Inl e \<Rightarrow> Inl e
          | Inr gbox1 \<Rightarrow>
             (let dst_nodata1 = (case dst_nodata of None \<Rightarrow> rdr_nodata rdr | Some n \<Rightarrow> Some n);
                  dst_nodata2 = (case dst_nodata1 of None \<Rightarrow> 0 | Some n \<Rightarrow> n)
              in case np_full B (gb_shape gbox1) dst_nodata2 dtype1 of
                   Inl e \<Rightarrow> Inl e
                 | Inr im \<Rightarrow> reproject_and_fuse B fs source im gbox1 dst_nodata2 resampling)))"

section \<open>Sample inputs\<close>

text \<open>
  A backend that parses \<^verbatim>\<open>epsg:3857\<close>, resamples to the requested \<^verbatim>\<open>out_shape\<close> by
  filling with the first pixel, and whose warp covers destination pixel 0 only, with value 9.
  Its cast refuses a value outside the range of \<^verbatim>\<open>uint8\<close> or \<^verbatim>\<open>int16\<close>, as numpy 2 does;
  \<open>demo_wrapping\<close> is the same backend with the wrapping cast of numpy 1.
\<close>

definition demo_backend :: "int backend" where
  "demo_backend =
     \<lparr>crs_from_input = (\<lambda>s. if s = ''epsg:3857''
          then Some \<lparr>is_epsg_code = True, to_epsg = Some 3857, wkt = ''PROJCS[3857]''\<rparr>
          else None),
      read_with = (\<lambda>kw a. case kw ''out_shape'' of
          Some (PInts s) \<Rightarrow>
            Inr \<lparr>arr_dtype = arr_dtype a, arr_shape = map nat s,
                 arr_elems = replicate (prod_list (map nat s)) (arr_elems a ! 0)\<rparr>
        | _ \<Rightarrow> Inl BackendError),
      warp = (\<lambda>src k shp nd t c kw i. if i = 0 then Some 9 else None),
      np_cast = (\<lambda>dt v.
          if dt = ''uint8'' \<and> (v < 0 \<or> 255 < v) then Inl OverflowError
          else if dt = ''int16'' \<and> (v < - 32768 \<or> 32767 < v) then Inl OverflowError
          else Inr v)\<rparr>"

definition demo_wrapping :: "int backend" where
  "demo_wrapping =
     demo_backend\<lparr>np_cast := (\<lambda>dt v. if dt = ''uint8'' then Inr (v mod 256) else Inr v)\<rparr>"

definition demo_pix :: "int ndarray" where
  "demo_pix = \<lparr>arr_dtype = ''int16'', arr_shape = [2, 3], arr_elems = [1, 2, 3, 4, 5, 6]\<rparr>"

definition demo_line :: "int ndarray" where
  "demo_line = \<lparr>arr_dtype = ''int16'', arr_shape = [4], arr_elems = [1, 2, 3, 4]\<rparr>"

definition demo_image :: "int ndarray" where
  "demo_image = \<lparr>arr_dtype = ''uint8'', arr_shape = [100, 300], arr_elems = replicate 30000 0\<rparr>"

definition demo_crs :: rio_crs where
  "demo_crs = \<lparr>is_epsg_code = True, to_epsg = Some 4326, wkt = ''GEOGCS[4326]''\<rparr>"

definition demo_file :: "int dataset" where
  "demo_file =
     \<lparr>ds_driver = ''GTiff'', ds_dtype = ''uint8'', ds_nodata = Some 255, ds_width = 2,
      ds_height = 2, ds_crs = Some demo_crs, ds_transform = Affine 1 0 0 0 (- 1) 0,
      ds_opts = Map.empty, ds_bands = [[7, 7, 7, 7]]\<rparr>"

definition demo_plain :: "int dataset" where
  "demo_plain = demo_file\<lparr>ds_nodata := None\<rparr>"

definition demo_rgb :: "int dataset" where
  "demo_rgb = demo_file\<lparr>ds_bands := [[1, 1, 1, 1], [2, 2, 2, 2], [3, 3, 3, 3]]\<rparr>"

definition demo_gbox :: geobox where
  "demo_gbox = GeoBox 3 1 (Affine 2 0 0 0 (- 2) 0) (CRS ''epsg:3857'')"

definition demo_fs :: "int filesystem" where
  "demo_fs = [''a.tif'' \<mapsto> demo_file]"

definition demo_written :: "(py_error + int pydict) \<times> int filesystem" where
  "demo_written =
     write_gtiff demo_backend Map.empty ''new.tif'' demo_pix ''epsg:3857'' (10, - 10) (0, 0)
       None False None Map.empty"

definition demo_tiled :: "(py_error + int pydict) \<times> int filesystem" where
  "demo_tiled =
     write_gtiff demo_backend Map.empty ''new.tif'' demo_image ''epsg:3857'' (10, - 10) (0, 0)
       None False (Some 512) Map.empty"

definition demo_tiled_64 :: "(py_error + int pydict) \<times> int filesystem" where
  "demo_tiled_64 =
     write_gtiff demo_backend Map.empty ''new.tif'' demo_image ''epsg:3857'' (10, - 10) (0, 0)
       None False (Some 512) [''blockxsize'' \<mapsto> PInt 64]"

definition demo_read :: "py_error + int ndarray \<times> int pydict" where
  "demo_read = rio_slurp_read demo_backend demo_fs ''a.tif'' None Map.empty"

definition demo_reprojected :: "py_error + int ndarray \<times> int pydict" where
  "demo_reprojected = rio_slurp_reproject demo_backend demo_fs ''a.tif'' demo_gbox None None Map.empty"

section \<open>Facts about the normalizer\<close>

lemma rio_geobox_rio_meta:
  "rio_geobox (rio_meta ds) =
     Inr (map_option (\<lambda>c. GeoBox (ds_width ds) (ds_height ds) (ds_transform ds) (dc_crs_from_rio c))
            (ds_crs ds))"
  by (cases "ds_crs ds") (simp_all add: rio_geobox_def rio_meta_def)

lemma rio_geobox_agree:
  assumes "m' ''crs'' = m ''crs''" and "m' ''transform'' = m ''transform''"
    and "m' ''height'' = m ''height''" and "m' ''width'' = m ''width''"
  shows "rio_geobox m' = rio_geobox m"
  unfolding rio_geobox_def assms by (rule refl)

lemma rio_geobox_SomeD:
  assumes "rio_geobox meta = Inr (Some g)"
  shows "meta ''height'' = Some (PInt (gb_height g)) \<and> meta ''width'' = Some (PInt (gb_width g)) \<and>
         meta ''transform'' = Some (PAffine (gb_transform g)) \<and>
         (\<exists>c. meta ''crs'' = Some (PCrs c) \<and> gb_crs g = dc_crs_from_rio c)"
  using assms
  by (auto simp add: rio_geobox_def GeoBox_def split: if_splits option.splits pyval.splits)

lemma gbox_entry_consistent:
  fixes m :: "'v pydict"
  assumes "rio_geobox m = Inr r" and "gbox_val r = (PGeoBox g :: 'v pyval)"
    and "m' ''crs'' = m ''crs''" and "m' ''transform'' = m ''transform''"
    and "m' ''height'' = m ''height''" and "m' ''width'' = m ''width''"
  shows "rio_geobox m' = Inr (Some g) \<and>
         m' ''height'' = Some (PInt (gb_height g)) \<and> m' ''width'' = Some (PInt (gb_width g)) \<and>
         m' ''transform'' = Some (PAffine (gb_transform g)) \<and>
         (\<exists>c. m' ''crs'' = Some (PCrs c) \<and> gb_crs g = dc_crs_from_rio c)"
proof -
  from assms(2) have r: "r = Some g" by (cases r) (simp_all add: gbox_val_def)
  have "rio_geobox m' = rio_geobox m" using assms(3-6) by (rule rio_geobox_agree)
  with assms(1) r have "rio_geobox m' = Inr (Some g)" by simp
  from this rio_geobox_SomeD [OF this] show ?thesis by simp
qed

text \<open>The metadata record each operation returns, written out.\<close>

lemma write_gtiff_meta:
  assumes "write_gtiff B fs fname pix crs resolution offset nodata overwrite blocksize extra_rio_opts
             = (Inr meta, fs')"
  shows "\<exists>dst. fs' fname = Some dst \<and>
           meta = (rio_meta dst)
             (''gbox'' \<mapsto> gbox_val (map_option (\<lambda>c. GeoBox (ds_width dst) (ds_height dst)
                                      (ds_transform dst) (dc_crs_from_rio c)) (ds_crs dst)),
              ''path'' \<mapsto> PPath fname)"
  using assms
  by (auto simp add: write_gtiff_def Let_def rio_geobox_rio_meta
        split: if_splits sum.splits prod.splits)

lemma rio_slurp_read_meta:
  assumes "rio_slurp_read B fs fname out_shape kw = Inr (data, meta)"
  shows "\<exists>src. fs fname = Some src \<and>
           meta = (rio_meta src)
             (''gbox'' \<mapsto> gbox_val (map_option (\<lambda>c. GeoBox (ds_width src) (ds_height src)
                                      (ds_transform src) (dc_crs_from_rio c)) (ds_crs src)),
              ''path'' \<mapsto> PPath fname)"
  using assms
  by (auto simp add: rio_slurp_read_def rio_open_r_def Let_def rio_geobox_rio_meta
        split: if_splits sum.splits option.splits)

lemma rio_slurp_reproject_meta:
  assumes "rio_slurp_reproject B fs fname gbox dtype dst_nodata kw = Inr (data, meta)"
  shows "\<exists>src. fs fname = Some src \<and>
           meta = (rio_meta src)
             (''src_gbox'' \<mapsto> gbox_val (map_option (\<lambda>c. GeoBox (ds_width src) (ds_height src)
                                          (ds_transform src) (dc_crs_from_rio c)) (ds_crs src)),
              ''path'' \<mapsto> PPath fname,
              ''gbox'' \<mapsto> PGeoBox gbox)"
  using assms
  by (auto simp add: rio_slurp_reproject_def rio_open_r_def Let_def rio_geobox_rio_meta
        split: if_splits sum.splits option.splits)



text \<open>What a successful \<^verbatim>\<open>write_gtiff\<close> leaves at the path.\<close>

lemma rio_open_w_Inr:
  assumes "rio_open_w B driver opts = Inr ds"
  shows "ds_opts ds = opts \<and> opts ''width'' = Some (PInt (ds_width ds)) \<and>
         opts ''height'' = Some (PInt (ds_height ds)) \<and> 0 < ds_width ds \<and> 0 < ds_height ds"
  using assms
  by (cases "opts ''width''" rule: as_int.cases; cases "opts ''height''" rule: as_int.cases)
     (auto simp add: rio_open_w_def split: option.splits if_splits)

lemma rio_write_Inr:
  assumes "rio_write ds arr ix = Inr ds'"
  shows "ds_opts ds' = ds_opts ds \<and> ds_width ds' = ds_width ds \<and> ds_height ds' = ds_height ds \<and>
         (arr_shape arr = [nat (ds_height ds), nat (ds_width ds)] \<or>
          (\<exists>n. arr_shape arr = [n, nat (ds_height ds), nat (ds_width ds)]))"
  using assms
  by (auto simp add: rio_write_def Let_def split: if_splits indexes.splits)

lemma rio_opts_tiling:
  assumes "extra_rio_opts ''tiled'' = None" and "extra_rio_opts ''blockxsize'' = None"
    and "extra_rio_opts ''blockysize'' = None"
  shows "rio_opts w h nbands d crs A (Some b) nodata extra_rio_opts ''tiled'' = Some (PBool True) \<and>
         rio_opts w h nbands d crs A (Some b) nodata extra_rio_opts ''blockxsize''
           = Some (PInt (min b (int w))) \<and>
         rio_opts w h nbands d crs A (Some b) nodata extra_rio_opts ''blockysize''
           = Some (PInt (min b (int h)))"
  using assms by (cases nodata) (simp_all add: rio_opts_def Let_def map_add_def)

lemma write_gtiff_Inr:
  assumes "write_gtiff B fs fname pix crs resolution offset nodata overwrite blocksize extra_rio_opts
             = (Inr meta, fs')"
  shows "\<exists>h w nbands dst.
           (arr_shape pix = [h, w] \<and> nbands = 1 \<or> arr_shape pix = [nbands, h, w]) \<and>
           fs' fname = Some dst \<and> ds_width dst = int w \<and> ds_height dst = int h \<and>
           ds_opts dst = rio_opts w h nbands (arr_dtype pix) crs
              (Affine (fst resolution) 0 (fst offset) 0 (snd resolution) (snd offset))
              blocksize nodata extra_rio_opts"
proof -
  have two: "xs = [xs ! 0, xs ! 1]" if "length xs = 2" for xs :: "nat list"
    using that by (cases xs; cases "tl xs"; cases "tl (tl xs)") auto
  have three: "xs = [xs ! 0, xs ! 1, xs ! 2]" if "length xs = 3" for xs :: "nat list"
    using that by (cases xs; cases "tl xs"; cases "tl (tl xs)"; cases "tl (tl (tl xs))") auto
  from assms have nd: "ndim pix = 2 \<or> ndim pix = 3"
    by (auto simp add: write_gtiff_def split: if_splits)
  define h where "h = (if ndim pix = 2 then arr_shape pix ! 0 else arr_shape pix ! 1)"
  define w where "w = (if ndim pix = 2 then arr_shape pix ! 1 else arr_shape pix ! 2)"
  define nbands where "nbands = (if ndim pix = 2 then 1 else arr_shape pix ! 0)"
  define band where "band = (if ndim pix = 2 then Index 1 else Indexes [1..<arr_shape pix ! 0 + 1])"
  define opts where "opts = rio_opts w h nbands (arr_dtype pix) crs
              (Affine (fst resolution) 0 (fst offset) 0 (snd resolution) (snd offset))
              blocksize nodata extra_rio_opts"
  have shp: "arr_shape pix = [h, w] \<and> nbands = 1 \<or> arr_shape pix = [nbands, h, w]"
    using nd two [of "arr_shape pix"] three [of "arr_shape pix"]
    by (auto simp add: h_def w_def nbands_def ndim_def)
  from assms nd obtain dst0 dst where o: "rio_open_w B ''GTiff'' opts = Inr dst0"
    and wr: "rio_write dst0 pix band = Inr dst" and f: "fs' fname = Some dst"
    by (auto simp add: write_gtiff_def Let_def h_def w_def nbands_def band_def opts_def
          split: if_splits sum.splits)
  from rio_open_w_Inr [OF o] rio_write_Inr [OF wr]
  have "ds_opts dst = opts" and pos: "0 < ds_width dst" "0 < ds_height dst"
    and dims: "arr_shape pix = [nat (ds_height dst), nat (ds_width dst)] \<or>
          (\<exists>n. arr_shape pix = [n, nat (ds_height dst), nat (ds_width dst)])"
    by simp_all
  from dims shp pos have "ds_width dst = int w" "ds_height dst = int h" by auto
  with shp f \<open>ds_opts dst = opts\<close> show ?thesis unfolding opts_def by blast
qed

lemma upt_0_3: "[0..<3] = [0, 1, 2]"
  by (simp add: numeral_3_eq_3 upt_rec)

lemma replicate_3: "replicate 3 x = [x, x, x]"
  by (simp add: numeral_3_eq_3)

lemmas norm_defs =
  Let_def rio_meta_def rio_geobox_def gbox_val_def GeoBox_def dc_crs_from_rio_def py_format_def
  ds_count_def

lemmas write_defs =
  write_gtiff_def ndim_def rio_opts_def rio_open_w_def rio_write_def

lemmas demo_defs =
  demo_backend_def demo_pix_def demo_line_def demo_file_def demo_plain_def demo_rgb_def
  demo_gbox_def demo_crs_def demo_image_def demo_fs_def demo_written_def demo_tiled_def
  demo_wrapping_def
  demo_tiled_64_def demo_read_def demo_reprojected_def

lemmas read_defs =
  rio_slurp_read_def rio_slurp_reproject_def rio_open_r_def rio_read_def rio_reproject_def
  np_full_def gb_shape_def dc_read_def source_open_def RasterFileDataSource_def
  reproject_and_fuse_def rdr_geobox_def

section \<open>Writer: the order of the checks\<close>

text \<open>
  Claim C5. An array whose number of dimensions is neither 2 nor 3 makes \<^verbatim>\<open>write_gtiff\<close>
  raise \<^verbatim>\<open>ValueError\<close> at once: whatever the file system and the other arguments are,
  the result is that error and the file system is the one the call started with.
\<close>

theorem write_gtiff_rejects_ndim:
  assumes "ndim pix \<noteq> 2" and "ndim pix \<noteq> 3"
  shows "write_gtiff B fs fname pix crs resolution offset nodata overwrite blocksize extra_rio_opts
           = (Inl (ValueError ''Need 2d or 3d ndarray on input''), fs)"
  using assms by (simp add: write_gtiff_def)

theorem write_gtiff_rejects_ndim_witness:
  "ndim demo_line \<noteq> 2 \<and> ndim demo_line \<noteq> 3 \<and>
   write_gtiff demo_backend Map.empty ''a.tif'' demo_line ''epsg:3857'' (10, - 10) (0, 0)
       None False None Map.empty
     = (Inl (ValueError ''Need 2d or 3d ndarray on input''), Map.empty)"
  using write_gtiff_rejects_ndim [where pix = demo_line and B = demo_backend and fs = Map.empty
      and fname = "''a.tif''" and crs = "''epsg:3857''" and resolution = "(10, - 10)"
      and offset = "(0, 0)" and nodata = None and overwrite = False and blocksize = None
      and extra_rio_opts = Map.empty]
  by (simp add: ndim_def demo_line_def)

text \<open>
  Claim C4. With a 2-D or 3-D array, a target path that already holds a file and
  \<open>overwrite = False\<close>, \<^verbatim>\<open>write_gtiff\<close> raises the existence error before anything is
  written: the file system, and so the existing file, is unchanged.
\<close>

theorem write_gtiff_exists_error:
  assumes "ndim pix = 2 \<or> ndim pix = 3" and "fs fname = Some f"
  shows "write_gtiff B fs fname pix crs resolution offset nodata False blocksize extra_rio_opts
           = (Inl (IOError ''File exists''), fs)"
  using assms by (auto simp add: write_gtiff_def)

theorem write_gtiff_exists_error_witness:
  "(ndim demo_pix = 2 \<or> ndim demo_pix = 3) \<and> demo_fs ''a.tif'' = Some demo_file \<and>
   write_gtiff demo_backend demo_fs ''a.tif'' demo_pix ''epsg:3857'' (10, - 10) (0, 0)
       None False None Map.empty
     = (Inl (IOError ''File exists''), demo_fs)"
  using write_gtiff_exists_error [where pix = demo_pix and B = demo_backend and fs = demo_fs
      and fname = "''a.tif''" and f = demo_file and crs = "''epsg:3857''"
      and resolution = "(10, - 10)" and offset = "(0, 0)" and nodata = None and blocksize = None
      and extra_rio_opts = Map.empty]
  by (simp add: ndim_def demo_pix_def demo_fs_def)

text \<open>
  Claim C10. The dimension check runs before the existence check: with an array that
  is neither 2-D nor 3-D and a target path that holds a file, the call raises
  \<^verbatim>\<open>ValueError\<close>, not the existence error, and the file is still there afterwards,
  also under \<open>overwrite = True\<close>.
\<close>

theorem write_gtiff_ndim_checked_first:
  assumes "ndim pix \<noteq> 2" and "ndim pix \<noteq> 3" and "fs fname = Some f"
  shows "fst (write_gtiff B fs fname pix crs resolution offset nodata overwrite blocksize
                extra_rio_opts) = Inl (ValueError ''Need 2d or 3d ndarray on input'') \<and>
         fst (write_gtiff B fs fname pix crs resolution offset nodata overwrite blocksize
                extra_rio_opts) \<noteq> Inl (IOError ''File exists'') \<and>
         snd (write_gtiff B fs fname pix crs resolution offset nodata overwrite blocksize
                extra_rio_opts) fname = Some f"
  using assms by (simp add: write_gtiff_def)

theorem write_gtiff_ndim_checked_first_witness:
  "ndim demo_line \<noteq> 2 \<and> ndim demo_line \<noteq> 3 \<and> demo_fs ''a.tif'' = Some demo_file \<and>
   fst (write_gtiff demo_backend demo_fs ''a.tif'' demo_line ''epsg:3857'' (10, - 10) (0, 0)
          None True None Map.empty) = Inl (ValueError ''Need 2d or 3d ndarray on input'') \<and>
   snd (write_gtiff demo_backend demo_fs ''a.tif'' demo_line ''epsg:3857'' (10, - 10) (0, 0)
          None True None Map.empty) ''a.tif'' = Some demo_file"
  using write_gtiff_ndim_checked_first [where pix = demo_line and B = demo_backend
      and fs = demo_fs and fname = "''a.tif''" and f = demo_file and crs = "''epsg:3857''"
      and resolution = "(10, - 10)" and offset = "(0, 0)" and nodata = None and overwrite = True
      and blocksize = None and extra_rio_opts = Map.empty]
  by (simp add: ndim_def demo_line_def demo_fs_def)

section \<open>Metadata normalizer: the contract\<close>



section \<open>Plain reader\<close>

text \<open>
  Claim C9. For a file the backend can open, \<^verbatim>\<open>rio_slurp_read\<close> returns an array
  and a metadata record; read plainly, the array is the one band as a 2-D array when
  the file has exactly one band and all bands stacked as a 3-D array otherwise. A given
  \<^verbatim>\<open>out_shape\<close> is forwarded: the call returns an array exactly when the backend read
  with \<^verbatim>\<open>out_shape\<close> among its options returns that array.
\<close>

theorem slurp_read_bands:
  assumes "fs fname = Some src"
  shows "(\<exists>meta. rio_slurp_read B fs fname None Map.empty =
            Inr (if length (ds_bands src) = 1
                 then \<lparr>arr_dtype = ds_dtype src,
                       arr_shape = [nat (ds_height src), nat (ds_width src)],
                       arr_elems = ds_bands src ! 0\<rparr>
                 else \<lparr>arr_dtype = ds_dtype src,
                       arr_shape = [length (ds_bands src), nat (ds_height src), nat (ds_width src)],
                       arr_elems = concat (ds_bands src)\<rparr>, meta)) \<and>
         ((\<exists>meta. rio_slurp_read B fs fname (Some s) kw = Inr (a, meta)) \<longleftrightarrow>
            rio_read B src (if length (ds_bands src) = 1 then Some 1 else None)
              (kw(''out_shape'' \<mapsto> PInts s)) = Inr a)"
  using assms
  by (auto simp add: rio_slurp_read_def rio_open_r_def rio_read_def ds_count_def rio_geobox_rio_meta
        Let_def split: sum.splits)

theorem slurp_read_bands_witness:
  "demo_fs ''a.tif'' = Some demo_file \<and>
   fst (projr (rio_slurp_read demo_backend demo_fs ''a.tif'' None Map.empty))
     = \<lparr>arr_dtype = ''uint8'', arr_shape = [2, 2], arr_elems = [7, 7, 7, 7]\<rparr> \<and>
   [''b.tif'' \<mapsto> demo_rgb] ''b.tif'' = Some demo_rgb \<and>
   fst (projr (rio_slurp_read demo_backend [''b.tif'' \<mapsto> demo_rgb] ''b.tif'' None Map.empty))
     = \<lparr>arr_dtype = ''uint8'', arr_shape = [3, 2, 2],
        arr_elems = [1, 1, 1, 1, 2, 2, 2, 2, 3, 3, 3, 3]\<rparr> \<and>
   rio_read demo_backend demo_file (Some 1) [''out_shape'' \<mapsto> PInts [1, 1]]
     = Inr \<lparr>arr_dtype = ''uint8'', arr_shape = [1, 1], arr_elems = [7]\<rparr> \<and>
   fst (projr (rio_slurp_read demo_backend demo_fs ''a.tif'' (Some [1, 1]) Map.empty))
     = \<lparr>arr_dtype = ''uint8'', arr_shape = [1, 1], arr_elems = [7]\<rparr>"
  using slurp_read_bands [where fs = demo_fs and fname = "''a.tif''" and src = demo_file
          and B = demo_backend and s = "[1, 1]" and kw = Map.empty
          and a = "\<lparr>arr_dtype = ''uint8'', arr_shape = [1, 1], arr_elems = [7]\<rparr>"]
        slurp_read_bands [where fs = "[''b.tif'' \<mapsto> demo_rgb]" and fname = "''b.tif''"
          and src = demo_rgb and B = demo_backend and s = "[1, 1]" and kw = Map.empty
          and a = "\<lparr>arr_dtype = ''uint8'', arr_shape = [1, 1], arr_elems = [7]\<rparr>"]
  by (auto simp add: demo_fs_def demo_file_def demo_rgb_def demo_backend_def rio_read_def np_full_def)

section \<open>Reprojecting readers\<close>

text \<open>
  Claim C2, amended. The fill value of a reprojecting read is resolved in order. For
  \<^verbatim>\<open>rio_slurp_reproject\<close>: the caller's \<^verbatim>\<open>dst_nodata\<close>, else the file's declared nodata,
  else 0. For \<^verbatim>\<open>dc_read\<close>: the caller's \<^verbatim>\<open>dst_nodata\<close>, else the file's declared nodata,
  else \<^verbatim>\<open>fallback_nodata\<close>, else 0. Whenever the read returns, its array is the
  reprojection into a canvas filled with that value, passed on as the nodata too.
\<close>

theorem nodata_resolution:
  "(fs fname = Some src \<longrightarrow>
    rio_slurp_reproject B fs fname gbox dtype dst_nodata kw = Inr (pix, meta) \<longrightarrow>
      (\<exists>im. np_full B (gb_shape gbox)
               (case dst_nodata of Some n \<Rightarrow> n
                | None \<Rightarrow> (case ds_nodata src of Some m \<Rightarrow> m | None \<Rightarrow> 0))
               (case dtype of None \<Rightarrow> ds_dtype src | Some d \<Rightarrow> d) = Inr im \<and>
             rio_reproject B src 1 im
               (case dst_nodata of Some n \<Rightarrow> n
                | None \<Rightarrow> (case ds_nodata src of Some m \<Rightarrow> m | None \<Rightarrow> 0))
               (gb_transform gbox) (crs_str (gb_crs gbox)) kw = Inr pix)) \<and>
   (fs fname = Some src \<longrightarrow>
    dc_read B fs fname band gbox' resampling dtype dst_nodata fallback_nodata = Inr out \<longrightarrow>
      (\<exists>G im. (\<forall>g. gbox' = Some g \<longrightarrow> G = g) \<and>
             np_full B (gb_shape G)
               (case dst_nodata of Some n \<Rightarrow> n
                | None \<Rightarrow> (case ds_nodata src of Some m \<Rightarrow> m
                            | None \<Rightarrow> (case fallback_nodata of Some f \<Rightarrow> f | None \<Rightarrow> 0)))
               (case dtype of None \<Rightarrow> ds_dtype src | Some d \<Rightarrow> d) = Inr im \<and>
             reproject_and_fuse B fs (RasterFileDataSource fname band fallback_nodata) im G
               (case dst_nodata of Some n \<Rightarrow> n
                | None \<Rightarrow> (case ds_nodata src of Some m \<Rightarrow> m
                            | None \<Rightarrow> (case fallback_nodata of Some f \<Rightarrow> f | None \<Rightarrow> 0)))
               resampling = Inr out))"
proof (intro conjI impI)
  assume "fs fname = Some src"
    and "rio_slurp_reproject B fs fname gbox dtype dst_nodata kw = Inr (pix, meta)"
  then show "\<exists>im. np_full B (gb_shape gbox)
               (case dst_nodata of Some n \<Rightarrow> n
                | None \<Rightarrow> (case ds_nodata src of Some m \<Rightarrow> m | None \<Rightarrow> 0))
               (case dtype of None \<Rightarrow> ds_dtype src | Some d \<Rightarrow> d) = Inr im \<and>
             rio_reproject B src 1 im
               (case dst_nodata of Some n \<Rightarrow> n
                | None \<Rightarrow> (case ds_nodata src of Some m \<Rightarrow> m | None \<Rightarrow> 0))
               (gb_transform gbox) (crs_str (gb_crs gbox)) kw = Inr pix"
    by (cases dst_nodata; cases "ds_nodata src"; cases dtype)
       (auto simp add: rio_slurp_reproject_def rio_open_r_def Let_def split: sum.splits if_splits)
next
  assume "fs fname = Some src"
    and "dc_read B fs fname band gbox' resampling dtype dst_nodata fallback_nodata = Inr out"
  then show "\<exists>G im. (\<forall>g. gbox' = Some g \<longrightarrow> G = g) \<and>
             np_full B (gb_shape G)
               (case dst_nodata of Some n \<Rightarrow> n
                | None \<Rightarrow> (case ds_nodata src of Some m \<Rightarrow> m
                            | None \<Rightarrow> (case fallback_nodata of Some f \<Rightarrow> f | None \<Rightarrow> 0)))
               (case dtype of None \<Rightarrow> ds_dtype src | Some d \<Rightarrow> d) = Inr im \<and>
             reproject_and_fuse B fs (RasterFileDataSource fname band fallback_nodata) im G
               (case dst_nodata of Some n \<Rightarrow> n
                | None \<Rightarrow> (case ds_nodata src of Some m \<Rightarrow> m
                            | None \<Rightarrow> (case fallback_nodata of Some f \<Rightarrow> f | None \<Rightarrow> 0)))
               resampling = Inr out"
    by (cases dst_nodata; cases "ds_nodata src"; cases fallback_nodata; cases gbox'; cases dtype)
       ((auto simp add: dc_read_def source_open_def RasterFileDataSource_def rio_open_r_def Let_def
          split: sum.splits if_splits)[1]; blast)+
qed

theorem nodata_resolution_witness:
  "demo_fs ''a.tif'' = Some demo_file \<and>
   rio_slurp_reproject demo_backend demo_fs ''a.tif'' demo_gbox None None Map.empty
     = Inr (projr (rio_slurp_reproject demo_backend demo_fs ''a.tif'' demo_gbox None None Map.empty)) \<and>
   np_full demo_backend (gb_shape demo_gbox) 255 ''uint8''
     = Inr \<lparr>arr_dtype = ''uint8'', arr_shape = [1, 3], arr_elems = [255, 255, 255]\<rparr> \<and>
   fst (projr (rio_slurp_reproject demo_backend demo_fs ''a.tif'' demo_gbox None (Some 0) Map.empty))
     = \<lparr>arr_dtype = ''uint8'', arr_shape = [1, 3], arr_elems = [9, 0, 0]\<rparr> \<and>
   dc_read demo_backend demo_fs ''a.tif'' 1 (Some demo_gbox) ''nearest'' None None (Some 7)
     = Inr \<lparr>arr_dtype = ''uint8'', arr_shape = [1, 3], arr_elems = [9, 255, 255]\<rparr>"
  using nodata_resolution [where fs = demo_fs and fname = "''a.tif''" and src = demo_file
      and B = demo_backend and gbox = demo_gbox and dtype = None and dst_nodata = None
      and kw = Map.empty and band = 1 and gbox' = "Some demo_gbox" and resampling = "''nearest''"
      and fallback_nodata = "Some 7"
      and pix = "fst (projr (rio_slurp_reproject demo_backend demo_fs ''a.tif'' demo_gbox None None Map.empty))"
      and meta = "snd (projr (rio_slurp_reproject demo_backend demo_fs ''a.tif'' demo_gbox None None Map.empty))"
      and out = "\<lparr>arr_dtype = ''uint8'', arr_shape = [1, 3], arr_elems = [9, 255, 255]\<rparr>"]
  by (simp add: norm_defs read_defs demo_defs upt_0_3 replicate_3)

text \<open>
  The claim as first stated gives 0 whenever \<^verbatim>\<open>dst_nodata\<close> and the file's nodata are
  both unset. With \<^verbatim>\<open>fallback_nodata = 7\<close> on a file that declares no nodata,
  \<^verbatim>\<open>dc_read\<close> fills with 7: pixel 1, outside the footprint, is 7.
\<close>

theorem nodata_fallback_counterexample:
  "ds_nodata demo_plain = None \<and>
   dc_read demo_backend [''a.tif'' \<mapsto> demo_plain] ''a.tif'' 1 (Some demo_gbox) ''nearest'' None None (Some 7)
     = Inr \<lparr>arr_dtype = ''uint8'', arr_shape = [1, 3], arr_elems = [9, 7, 7]\<rparr> \<and>
   warp demo_backend demo_plain 1 [1, 3] 7 (gb_transform demo_gbox) (crs_str (gb_crs demo_gbox))
     [''resampling'' \<mapsto> PStr ''nearest''] 1 = None \<and>
   (7::int) \<noteq> 0"
  by (simp add: norm_defs read_defs demo_defs upt_0_3 replicate_3)




section \<open>Metadata records\<close>

text \<open>
  Claim C7, amended. In the record returned by \<^verbatim>\<open>write_gtiff\<close> and in the one returned
  by \<^verbatim>\<open>rio_slurp_read\<close>, a non-null \<^verbatim>\<open>gbox\<close> is the grid descriptor derived from that
  record: the normalizer applied to the record gives it back, and its height, width,
  transform and CRS are the record's. In the record returned by
  \<^verbatim>\<open>rio_slurp_reproject\<close>, \<^verbatim>\<open>gbox\<close> is the destination grid the caller passed, and it
  is \<^verbatim>\<open>src_gbox\<close> that is derived from the record's height, width, transform and crs.
\<close>

theorem metadata_gbox_consistent:
  "(write_gtiff B fs fname pix crs resolution offset nodata overwrite blocksize extra_rio_opts
       = (Inr meta, fs') \<longrightarrow> meta ''gbox'' = Some (PGeoBox g) \<longrightarrow>
      rio_geobox meta = Inr (Some g) \<and>
      meta ''height'' = Some (PInt (gb_height g)) \<and> meta ''width'' = Some (PInt (gb_width g)) \<and>
      meta ''transform'' = Some (PAffine (gb_transform g)) \<and>
      (\<exists>c. meta ''crs'' = Some (PCrs c) \<and> gb_crs g = dc_crs_from_rio c)) \<and>
   (rio_slurp_read B fs fname out_shape kw = Inr (data, meta) \<longrightarrow> meta ''gbox'' = Some (PGeoBox g) \<longrightarrow>
      rio_geobox meta = Inr (Some g) \<and>
      meta ''height'' = Some (PInt (gb_height g)) \<and> meta ''width'' = Some (PInt (gb_width g)) \<and>
      meta ''transform'' = Some (PAffine (gb_transform g)) \<and>
      (\<exists>c. meta ''crs'' = Some (PCrs c) \<and> gb_crs g = dc_crs_from_rio c)) \<and>
   (rio_slurp_reproject B fs fname gbox dtype dst_nodata kw = Inr (data, meta) \<longrightarrow>
      meta ''gbox'' = Some (PGeoBox gbox) \<and>
      (meta ''src_gbox'' = Some (PGeoBox g) \<longrightarrow>
         rio_geobox meta = Inr (Some g) \<and>
         meta ''height'' = Some (PInt (gb_height g)) \<and> meta ''width'' = Some (PInt (gb_width g)) \<and>
         meta ''transform'' = Some (PAffine (gb_transform g)) \<and>
         (\<exists>c. meta ''crs'' = Some (PCrs c) \<and> gb_crs g = dc_crs_from_rio c)))"
proof (intro conjI impI)
  assume a: "write_gtiff B fs fname pix crs resolution offset nodata overwrite blocksize extra_rio_opts
       = (Inr meta, fs')" and b: "meta ''gbox'' = Some (PGeoBox g)"
  from write_gtiff_meta [OF a] obtain dst where
    m: "meta = (rio_meta dst)(''gbox'' \<mapsto> gbox_val (map_option (\<lambda>c. GeoBox (ds_width dst) (ds_height dst) (ds_transform dst) (dc_crs_from_rio c)) (ds_crs dst)), ''path'' \<mapsto> PPath fname)"
    by blast
  have "rio_geobox meta = Inr (Some g) \<and>
      meta ''height'' = Some (PInt (gb_height g)) \<and> meta ''width'' = Some (PInt (gb_width g)) \<and>
      meta ''transform'' = Some (PAffine (gb_transform g)) \<and>
      (\<exists>c. meta ''crs'' = Some (PCrs c) \<and> gb_crs g = dc_crs_from_rio c)"
    by (rule gbox_entry_consistent [OF rio_geobox_rio_meta [of dst]]) (use m b in simp_all)
  then show "rio_geobox meta = Inr (Some g)" 
      "meta ''height'' = Some (PInt (gb_height g))" "meta ''width'' = Some (PInt (gb_width g))"
      "meta ''transform'' = Some (PAffine (gb_transform g))"
      "\<exists>c. meta ''crs'' = Some (PCrs c) \<and> gb_crs g = dc_crs_from_rio c"
    by simp_all
next
  assume a: "rio_slurp_read B fs fname out_shape kw = Inr (data, meta)"
    and b: "meta ''gbox'' = Some (PGeoBox g)"
  from rio_slurp_read_meta [OF a] obtain src where
    m: "meta = (rio_meta src)(''gbox'' \<mapsto> gbox_val (map_option (\<lambda>c. GeoBox (ds_width src) (ds_height src) (ds_transform src) (dc_crs_from_rio c)) (ds_crs src)), ''path'' \<mapsto> PPath fname)"
    by blast
  have "rio_geobox meta = Inr (Some g) \<and>
      meta ''height'' = Some (PInt (gb_height g)) \<and> meta ''width'' = Some (PInt (gb_width g)) \<and>
      meta ''transform'' = Some (PAffine (gb_transform g)) \<and>
      (\<exists>c. meta ''crs'' = Some (PCrs c) \<and> gb_crs g = dc_crs_from_rio c)"
    by (rule gbox_entry_consistent [OF rio_geobox_rio_meta [of src]]) (use m b in simp_all)
  then show "rio_geobox meta = Inr (Some g)" 
      "meta ''height'' = Some (PInt (gb_height g))" "meta ''width'' = Some (PInt (gb_width g))"
      "meta ''transform'' = Some (PAffine (gb_transform g))"
      "\<exists>c. meta ''crs'' = Some (PCrs c) \<and> gb_crs g = dc_crs_from_rio c"
    by simp_all
next
  assume a: "rio_slurp_reproject B fs fname gbox dtype dst_nodata kw = Inr (data, meta)"
  from rio_slurp_reproject_meta [OF a] obtain src where
    m: "meta = (rio_meta src)(''src_gbox'' \<mapsto> gbox_val (map_option (\<lambda>c. GeoBox (ds_width src) (ds_height src) (ds_transform src) (dc_crs_from_rio c)) (ds_crs src)), ''path'' \<mapsto> PPath fname, ''gbox'' \<mapsto> PGeoBox gbox)"
    by blast
  from m show "meta ''gbox'' = Some (PGeoBox gbox)" by simp
  assume b: "meta ''src_gbox'' = Some (PGeoBox g)"
  have "rio_geobox meta = Inr (Some g) \<and>
      meta ''height'' = Some (PInt (gb_height g)) \<and> meta ''width'' = Some (PInt (gb_width g)) \<and>
      meta ''transform'' = Some (PAffine (gb_transform g)) \<and>
      (\<exists>c. meta ''crs'' = Some (PCrs c) \<and> gb_crs g = dc_crs_from_rio c)"
    by (rule gbox_entry_consistent [OF rio_geobox_rio_meta [of src]]) (use m b in simp_all)
  then show "rio_geobox meta = Inr (Some g)" 
      "meta ''height'' = Some (PInt (gb_height g))" "meta ''width'' = Some (PInt (gb_width g))"
      "meta ''transform'' = Some (PAffine (gb_transform g))"
      "\<exists>c. meta ''crs'' = Some (PCrs c) \<and> gb_crs g = dc_crs_from_rio c"
    by simp_all
qed

theorem metadata_gbox_consistent_witness:
  "demo_written = (Inr (projr (fst demo_written)), snd demo_written) \<and>
   projr (fst demo_written) ''gbox''
     = Some (PGeoBox (GeoBox 3 2 (Affine 10 0 0 0 (- 10) 0) (CRS ''epsg:3857''))) \<and>
   rio_geobox (projr (fst demo_written))
     = Inr (Some (GeoBox 3 2 (Affine 10 0 0 0 (- 10) 0) (CRS ''epsg:3857''))) \<and>
   projr (fst demo_written) ''height'' = Some (PInt 2) \<and>
   demo_read = Inr (projr demo_read) \<and>
   snd (projr demo_read) ''gbox''
     = Some (PGeoBox (GeoBox 2 2 (Affine 1 0 0 0 (- 1) 0) (CRS ''epsg:4326''))) \<and>
   rio_geobox (snd (projr demo_read))
     = Inr (Some (GeoBox 2 2 (Affine 1 0 0 0 (- 1) 0) (CRS ''epsg:4326''))) \<and>
   demo_reprojected = Inr (projr demo_reprojected) \<and>
   snd (projr demo_reprojected) ''gbox'' = Some (PGeoBox demo_gbox) \<and>
   snd (projr demo_reprojected) ''src_gbox''
     = Some (PGeoBox (GeoBox 2 2 (Affine 1 0 0 0 (- 1) 0) (CRS ''epsg:4326''))) \<and>
   rio_geobox (snd (projr demo_reprojected))
     = Inr (Some (GeoBox 2 2 (Affine 1 0 0 0 (- 1) 0) (CRS ''epsg:4326'')))"
  using metadata_gbox_consistent [where B = demo_backend and fs = Map.empty and fname = "''new.tif''"
          and pix = demo_pix and crs = "''epsg:3857''" and resolution = "(10, - 10)"
          and offset = "(0, 0)" and nodata = None and overwrite = False and blocksize = None
          and extra_rio_opts = Map.empty and meta = "projr (fst demo_written)"
          and fs' = "snd demo_written"
          and g = "GeoBox 3 2 (Affine 10 0 0 0 (- 10) 0) (CRS ''epsg:3857'')"
          and out_shape = None and kw = Map.empty and data = "fst (projr demo_read)"
          and gbox = demo_gbox and dtype = None and dst_nodata = None]
        metadata_gbox_consistent [where B = demo_backend and fs = demo_fs and fname = "''a.tif''"
          and pix = demo_pix and crs = "''epsg:3857''" and resolution = "(10, - 10)"
          and offset = "(0, 0)" and nodata = None and overwrite = False and blocksize = None
          and extra_rio_opts = Map.empty and meta = "snd (projr demo_read)"
          and fs' = "demo_fs"
          and g = "GeoBox 2 2 (Affine 1 0 0 0 (- 1) 0) (CRS ''epsg:4326'')"
          and out_shape = None and kw = Map.empty and data = "fst (projr demo_read)"
          and gbox = demo_gbox and dtype = None and dst_nodata = None]
        metadata_gbox_consistent [where B = demo_backend and fs = demo_fs and fname = "''a.tif''"
          and pix = demo_pix and crs = "''epsg:3857''" and resolution = "(10, - 10)"
          and offset = "(0, 0)" and nodata = None and overwrite = False and blocksize = None
          and extra_rio_opts = Map.empty and meta = "snd (projr demo_reprojected)"
          and fs' = "demo_fs"
          and g = "GeoBox 2 2 (Affine 1 0 0 0 (- 1) 0) (CRS ''epsg:4326'')"
          and out_shape = None and kw = Map.empty and data = "fst (projr demo_reprojected)"
          and gbox = demo_gbox and dtype = None and dst_nodata = None]
  by (simp add: norm_defs write_defs read_defs demo_defs
        digits.simps upt_0_3 replicate_3)

text \<open>
  The claim as first stated covers \<^verbatim>\<open>rio_slurp_reproject\<close> too. Reading a 2-by-2 file
  onto a 1-by-3 grid, the record's \<^verbatim>\<open>gbox\<close> is the 1-by-3 destination grid while its
  \<^verbatim>\<open>height\<close> and \<^verbatim>\<open>width\<close> are the source's 2 and 2.
\<close>

theorem reproject_gbox_counterexample:
  "demo_reprojected = Inr (projr demo_reprojected) \<and>
   snd (projr demo_reprojected) ''gbox'' = Some (PGeoBox demo_gbox) \<and>
   gb_height demo_gbox = 1 \<and> gb_width demo_gbox = 3 \<and>
   snd (projr demo_reprojected) ''height'' = Some (PInt 2) \<and>
   snd (projr demo_reprojected) ''width'' = Some (PInt 2) \<and>
   rio_geobox (snd (projr demo_reprojected)) \<noteq> Inr (Some demo_gbox)"
  by (simp add: norm_defs read_defs demo_defs digits.simps upt_0_3 replicate_3)

section \<open>Writer: tiling\<close>

text \<open>
  Claim C8, amended. When \<^verbatim>\<open>write_gtiff\<close> is called with a block size \<open>b\<close> and extra
  options that do not themselves set \<^verbatim>\<open>tiled\<close>, \<^verbatim>\<open>blockxsize\<close> or \<^verbatim>\<open>blockysize\<close>, and
  the write succeeds, the file is created with tiling enabled and with tile sizes
  \<open>min b width\<close> and \<open>min b height\<close>: block size 512 on a 100-by-300 image gives 300
  and 100.
\<close>

theorem tiling_clamped:
  assumes "blocksize = Some b"
    and "extra_rio_opts ''tiled'' = None" and "extra_rio_opts ''blockxsize'' = None"
    and "extra_rio_opts ''blockysize'' = None"
    and "arr_shape pix = [h, w] \<or> arr_shape pix = [n, h, w]"
    and "write_gtiff B fs fname pix crs resolution offset nodata overwrite blocksize extra_rio_opts
           = (Inr meta, fs')"
  shows "\<exists>dst. fs' fname = Some dst \<and> ds_width dst = int w \<and> ds_height dst = int h \<and>
           ds_opts dst ''tiled'' = Some (PBool True) \<and>
           ds_opts dst ''blockxsize'' = Some (PInt (min b (int w))) \<and>
           ds_opts dst ''blockysize'' = Some (PInt (min b (int h)))"
proof -
  from write_gtiff_Inr [OF assms(6)] obtain h' w' nbands dst where
    shp: "arr_shape pix = [h', w'] \<and> nbands = 1 \<or> arr_shape pix = [nbands, h', w']"
    and f: "fs' fname = Some dst" and d: "ds_width dst = int w'" "ds_height dst = int h'"
    and o: "ds_opts dst = rio_opts w' h' nbands (arr_dtype pix) crs
              (Affine (fst resolution) 0 (fst offset) 0 (snd resolution) (snd offset))
              blocksize nodata extra_rio_opts"
    by blast
  from shp assms(5) have eq: "h' = h" "w' = w" by auto
  from rio_opts_tiling [OF assms(2-4), of w h nbands "arr_dtype pix" crs _ b nodata] o
  show ?thesis using f d eq assms(1) by simp
qed

theorem tiling_clamped_witness:
  "(arr_shape demo_image = [100, 300] \<or> arr_shape demo_image = [0, 100, 300]) \<and>
   demo_tiled = (Inr (projr (fst demo_tiled)), snd demo_tiled) \<and>
   ds_opts (the (snd demo_tiled ''new.tif'')) ''tiled'' = Some (PBool True) \<and>
   ds_opts (the (snd demo_tiled ''new.tif'')) ''blockxsize'' = Some (PInt 300) \<and>
   ds_opts (the (snd demo_tiled ''new.tif'')) ''blockysize'' = Some (PInt 100)"
  using tiling_clamped [where blocksize = "Some 512" and b = 512 and extra_rio_opts = Map.empty
      and pix = demo_image and h = 100 and w = 300 and n = 0 and B = demo_backend
      and fs = Map.empty and fname = "''new.tif''" and crs = "''epsg:3857''"
      and resolution = "(10, - 10)" and offset = "(0, 0)" and nodata = None and overwrite = False
      and meta = "projr (fst demo_tiled)" and fs' = "snd demo_tiled"]
  by (simp add: norm_defs write_defs demo_defs digits.simps)

text \<open>
  The claim as first stated is for every call. The extra options are applied last:
  with \<^verbatim>\<open>blocksize=512\<close> and \<^verbatim>\<open>blockxsize=64\<close> among them, the 100-by-300 image is
  written with tile width 64, not \<open>min 512 300\<close>.
\<close>

theorem tiling_override_counterexample:
  "demo_tiled_64 = (Inr (projr (fst demo_tiled_64)), snd demo_tiled_64) \<and>
   arr_shape demo_image = [100, 300] \<and>
   ds_width (the (snd demo_tiled_64 ''new.tif'')) = 300 \<and>
   ds_opts (the (snd demo_tiled_64 ''new.tif'')) ''blockxsize'' = Some (PInt 64) \<and>
   min (512::int) 300 \<noteq> 64"
  by (simp add: norm_defs write_defs demo_defs digits.simps)

section \<open>Write, then read\<close>

text \<open>
  Claim C1. A valid 2-D array (positive height and width, one element for each pixel)
  written by \<^verbatim>\<open>write_gtiff\<close> to a path that holds no file, and read back by
  \<^verbatim>\<open>rio_slurp_read\<close>, comes back unchanged: the same elements, the same shape and the
  same dtype. This holds for every resolution, offset, nodata, block size and CRS string
  the backend accepts, and for extra options that leave the layout of the file (width,
  height, count, dtype, nodata, crs, transform, driver) to \<^verbatim>\<open>write_gtiff\<close>.
\<close>

theorem write_read_roundtrip:
  assumes "arr_shape pix = [h, w]" and "0 < h" and "0 < w"
    and "length (arr_elems pix) = h * w"
    and "fs fname = None"
    and "crs_from_input B crs = Some c"
    and "\<forall>k \<in> set [''width'', ''height'', ''count'', ''dtype'', ''nodata'', ''crs'', ''transform'',
                     ''driver'']. extra_rio_opts k = None"
  shows "\<exists>meta fs' data meta'.
           write_gtiff B fs fname pix crs resolution offset nodata overwrite blocksize extra_rio_opts
             = (Inr meta, fs') \<and>
           rio_slurp_read B fs' fname None Map.empty = Inr (data, meta') \<and>
           data = pix \<and> arr_dtype data = arr_dtype pix"
proof -
  define A where "A = Affine (fst resolution) 0 (fst offset) 0 (snd resolution) (snd offset)"
  define opts where "opts = rio_opts w h 1 (arr_dtype pix) crs A blocksize nodata extra_rio_opts"
  define dst0 where "dst0 = \<lparr>ds_driver = ''GTiff'', ds_dtype = arr_dtype pix, ds_nodata = nodata,
      ds_width = int w, ds_height = int h, ds_crs = Some c, ds_transform = A, ds_opts = opts,
      ds_bands = [replicate (h * w) (0::'a)]\<rparr>"
  define dst where "dst = dst0\<lparr>ds_bands := [arr_elems pix]\<rparr>"
  from assms(7) have ex: "extra_rio_opts ''width'' = None" "extra_rio_opts ''height'' = None"
    "extra_rio_opts ''count'' = None" "extra_rio_opts ''dtype'' = None"
    "extra_rio_opts ''nodata'' = None" "extra_rio_opts ''crs'' = None"
    "extra_rio_opts ''transform'' = None" "extra_rio_opts ''driver'' = None"
    by simp_all
  have o: "opts ''width'' = Some (PInt (int w))" "opts ''height'' = Some (PInt (int h))"
    "opts ''count'' = Some (PInt 1)" "opts ''dtype'' = Some (PStr (arr_dtype pix))"
    "opts ''crs'' = Some (PStr crs)" "opts ''transform'' = Some (PAffine A)"
    "opts ''driver'' = None"
    "opts ''nodata'' = (case nodata of None \<Rightarrow> None | Some n \<Rightarrow> Some (PScalar n))"
    using ex by (cases blocksize; cases nodata; simp add: opts_def rio_opts_def Let_def map_add_def)+
  have nd: "as_nodata (opts ''nodata'') = Some nodata"
    by (cases nodata) (simp_all add: o)
  have opened: "rio_open_w B ''GTiff'' opts = Inr dst0"
    using assms(2,3,6) by (simp add: rio_open_w_def o(1-7) nd dst0_def)
  have written: "rio_write dst0 pix (Index 1) = Inr dst"
    using assms(1,4) by (simp add: rio_write_def dst0_def dst_def)
  have nd2: "ndim pix = 2" using assms(1) by (simp add: ndim_def)
  have wg: "write_gtiff B fs fname pix crs resolution offset nodata overwrite blocksize extra_rio_opts
          = (Inr ((rio_meta dst)(''gbox'' \<mapsto> gbox_val (map_option (\<lambda>c. GeoBox (ds_width dst) (ds_height dst)
                                      (ds_transform dst) (dc_crs_from_rio c)) (ds_crs dst)),
              ''path'' \<mapsto> PPath fname)), fs(fname \<mapsto> dst))"
    using assms(1,5) nd2 opened written o(7) unfolding opts_def A_def
    by (simp add: write_gtiff_def Let_def rio_geobox_rio_meta)
  have pixeq: "\<lparr>arr_dtype = arr_dtype pix, arr_shape = [h, w], arr_elems = arr_elems pix\<rparr> = pix"
    using assms(1) by (cases pix) simp
  have rd: "rio_slurp_read B (fs(fname \<mapsto> dst)) fname None Map.empty
          = Inr (pix, (rio_meta dst)(''gbox'' \<mapsto> gbox_val (map_option (\<lambda>c. GeoBox (ds_width dst) (ds_height dst)
                                      (ds_transform dst) (dc_crs_from_rio c)) (ds_crs dst)),
              ''path'' \<mapsto> PPath fname))"
    by (simp add: rio_slurp_read_def rio_open_r_def rio_read_def ds_count_def Let_def
          rio_geobox_rio_meta dst_def dst0_def pixeq)
  from wg rd show ?thesis by blast
qed

theorem write_read_roundtrip_witness:
  "arr_shape demo_pix = [2, 3] \<and> (0::nat) < 2 \<and> (0::nat) < 3 \<and>
   length (arr_elems demo_pix) = 2 * 3 \<and>
   (Map.empty :: int filesystem) ''new.tif'' = None \<and>
   (Map.empty :: int pydict) ''count'' = None \<and> (Map.empty :: int pydict) ''dtype'' = None \<and>
   crs_from_input demo_backend ''epsg:3857''
     = Some \<lparr>is_epsg_code = True, to_epsg = Some 3857, wkt = ''PROJCS[3857]''\<rparr> \<and>
   demo_written = (Inr (projr (fst demo_written)), snd demo_written) \<and>
   fst (projr (rio_slurp_read demo_backend (snd demo_written) ''new.tif'' None Map.empty)) = demo_pix"
  using write_read_roundtrip [where pix = demo_pix and h = 2 and w = 3 and fs = Map.empty
      and fname = "''new.tif''" and B = demo_backend and crs = "''epsg:3857''"
      and c = "\<lparr>is_epsg_code = True, to_epsg = Some 3857, wkt = ''PROJCS[3857]''\<rparr>"
      and extra_rio_opts = Map.empty and resolution = "(10, - 10)" and offset = "(0, 0)"
      and nodata = None and overwrite = False and blocksize = None]
  by (simp add: norm_defs write_defs read_defs demo_defs digits.simps)

end
